theory Spec2Isabelle
  imports Main "HOL-Library.Word"
begin

section \<open>The example asynchronous service of \<^verbatim>\<open>examples/adapt_callbacks.cpp\<close>\<close>

text \<open>
  \<^verbatim>\<open>AsyncAPI::errorcode\<close> is the C++ type \<^verbatim>\<open>int\<close>: a 32-bit two's complement integer on
  the platforms the library builds for. \<^verbatim>\<open>0\<close> means success; \<^verbatim>\<open>if (ec)\<close> and
  \<^verbatim>\<open>if (! injected)\<close> test the code against zero.
\<close>

type_synonym errorcode = "32 word"

text \<open>
  The two private members of \<^verbatim>\<open>class AsyncAPI\<close>. A field name of the source ends in an
  underscore, which is not a legal end of an Isabelle name, so a prime follows it.
\<close>

record AsyncAPI =
  data_' :: string
  injected_' :: errorcode

text \<open>
  The constructor initialises \<^verbatim>\<open>injected_\<close> with 0; \<^verbatim>\<open>data_\<close> is a default-constructed
  (empty) \<^verbatim>\<open>std::string\<close>.
\<close>

definition AsyncAPI_ctor :: AsyncAPI where
  "AsyncAPI_ctor = \<lparr>data_' = [], injected_' = 0\<rparr>"

definition inject_error :: "AsyncAPI \<Rightarrow> errorcode \<Rightarrow> AsyncAPI" where
  "inject_error api ec = api\<lparr>injected_' := ec\<rparr>"

text \<open>
  \<^verbatim>\<open>init_write\<close> and \<^verbatim>\<open>init_read\<close> change the members synchronously with the caller and
  then launch a detached thread that sleeps and calls the completion callback exactly
  once, with the values captured at the time of the call. The model returns the updated
  service together with that pending call: \<open>callback injected\<close> (and
  \<open>callback injected data\<close> for a read) is the body of the detached thread, still to
  be run by whoever waits for the completion. The sleep itself has no functional content.
\<close>

definition init_write :: "AsyncAPI \<Rightarrow> string \<Rightarrow> (errorcode \<Rightarrow> 'k) \<Rightarrow> 'k \<times> AsyncAPI" where
  "init_write api data callback =
     (let injected = injected_' api;
          api = api\<lparr>injected_' := 0\<rparr>;
          api = (if injected = 0 then api\<lparr>data_' := data\<rparr> else api)
      in (callback injected, api))"

definition init_read :: "AsyncAPI \<Rightarrow> (errorcode \<Rightarrow> string \<Rightarrow> 'k) \<Rightarrow> 'k \<times> AsyncAPI" where
  "init_read api callback =
     (let injected = injected_' api;
          api = api\<lparr>injected_' := 0\<rparr>;
          data = data_' api
      in (callback injected data, api))"

section \<open>Promise, future and the calling fiber\<close>

text \<open>
  \<^verbatim>\<open>std::runtime_error\<close> keeps a copy of the \<^verbatim>\<open>std::string\<close> it was constructed with.
\<close>

datatype runtime_error = Runtime_error (msg: string)

text \<open>
  \<^verbatim>\<open>what()\<close> returns a \<^verbatim>\<open>const char*\<close> to that copy: whoever reads the message through it, as
  \<^verbatim>\<open>main\<close> does with \<^verbatim>\<open>thrown = e.what()\<close>, reads a C string, which ends before the first NUL
  byte of the stored string.
\<close>

definition what :: "runtime_error \<Rightarrow> string" where
  "what e = takeWhile (\<lambda>c. c \<noteq> CHR 0x00) (msg e)"

text \<open>
  Modelled from the spec: \<^verbatim>\<open>boost::fibers::promise\<close> and \<^verbatim>\<open>boost::fibers::future\<close> are
  defined in the library's headers, which are not among the sources at hand. The spec's
  result slot is a write-once container holding a value or an error marker, with a
  completion flag: the state shared by a promise and its future is not yet fulfilled,
  fulfilled with a value, or fulfilled with an exception.
\<close>

datatype 'a shared_state = Not_ready | Has_value 'a | Has_exception runtime_error

text \<open>
  Modelled from the spec: \<^verbatim>\<open>promise::set_value\<close>, the producer's \<^verbatim>\<open>fulfill\<close>, is missing. The
  slot is written at most once; fulfilling it a second time is a programming error, here
  \<open>None\<close>.
\<close>

definition set_value :: "'a \<Rightarrow> 'a shared_state \<Rightarrow> 'a shared_state option" where
  "set_value v st = (case st of Not_ready \<Rightarrow> Some (Has_value v) | _ \<Rightarrow> None)"

text \<open>
  Modelled from the spec: \<^verbatim>\<open>promise::set_exception\<close>, the producer's \<^verbatim>\<open>fail\<close>, is missing:
  the alternative single fulfilment, with a failure instead of a value.
\<close>

definition set_exception :: "runtime_error \<Rightarrow> 'a shared_state \<Rightarrow> 'a shared_state option" where
  "set_exception e st = (case st of Not_ready \<Rightarrow> Some (Has_exception e) | _ \<Rightarrow> None)"

text \<open>
  What a call of an adapter does, seen from the calling fiber: it returns a value, it
  throws, it stays suspended for ever (the promise is never fulfilled), or the process
  is terminated (an exception escapes the detached thread).
\<close>

datatype 'a outcome = Returns 'a | Throws runtime_error | Never_resumes | Terminates

text \<open>
  Modelled from the spec: \<^verbatim>\<open>future::get\<close>, the consumer's \<^verbatim>\<open>await\<close>, is missing. It suspends
  the calling fiber until the slot is fulfilled and resumes with the value, or raises the
  failure again if the slot was failed; on a slot that is never fulfilled the fiber is
  never resumed.
\<close>

definition future_get :: "'a shared_state \<Rightarrow> 'a outcome" where
  "future_get st =
     (case st of Not_ready \<Rightarrow> Never_resumes | Has_value v \<Rightarrow> Returns v | Has_exception e \<Rightarrow> Throws e)"

text \<open>
  Modelled from the spec: the scheduler that resumes the fiber is missing. Fulfilment
  happens before resumption: the fiber is suspended in \<^verbatim>\<open>future.get()\<close> while the detached
  thread runs the completion callback on the promise, and it resumes with what the
  promise then holds. A callback that throws in the detached thread terminates the
  process.
\<close>

definition await :: "('a shared_state \<Rightarrow> 'a shared_state option) \<Rightarrow> 'a shared_state \<Rightarrow> 'a outcome" where
  "await thread promise =
     (case thread promise of None \<Rightarrow> Terminates | Some st \<Rightarrow> future_get st)"

section \<open>The failure construction helper\<close>

text \<open>
  Modelled from the spec: the stream insertion of an \<^verbatim>\<open>int\<close> belongs to the C++ standard
  library and is missing. \<^verbatim>\<open>buffer << ec\<close> on a default \<^verbatim>\<open>std::ostringstream\<close> writes the
  integer code's decimal representation: a minus sign for a negative value, then the
  digits, most significant first, without padding or grouping. The digits are produced
  the way the library does it, by repeated division by ten.
\<close>

definition digit_char :: "nat \<Rightarrow> char" where
  "digit_char d = char_of (of_char CHR ''0'' + d)"

fun decimal_digits :: "nat \<Rightarrow> string" where
  "decimal_digits n =
     (if n < 10 then [digit_char n] else decimal_digits (n div 10) @ [digit_char (n mod 10)])"

declare decimal_digits.simps [simp del]

definition decimal :: "int \<Rightarrow> string" where
  "decimal i = (if i < 0 then CHR ''-'' # decimal_digits (nat (- i)) else decimal_digits (nat i))"

text \<open>
  The local \<^verbatim>\<open>std::ostringstream buffer\<close> is the string written so far; \<^verbatim>\<open><<\<close> with a string
  appends it, \<^verbatim>\<open><<\<close> with an \<^verbatim>\<open>int\<close> appends its digits, and \<^verbatim>\<open>buffer.str()\<close> is the message.
\<close>

definition put_string :: "string \<Rightarrow> string \<Rightarrow> string" where
  "put_string buffer s = buffer @ s"

definition put_int :: "string \<Rightarrow> errorcode \<Rightarrow> string" where
  "put_int buffer ec = buffer @ decimal (sint ec)"

definition make_exception :: "string \<Rightarrow> errorcode \<Rightarrow> runtime_error" where
  "make_exception desc ec =
     (let buffer = [];
          buffer = put_string buffer ''Error in AsyncAPI::'';
          buffer = put_string buffer desc;
          buffer = put_string buffer ''(): '';
          buffer = put_int buffer ec
      in Runtime_error buffer)"

section \<open>The adapters\<close>

text \<open>
  Every adapter makes a fresh promise, starts the operation with a callback that fulfils
  the promise, and waits for the future. \<^verbatim>\<open>write\<close> calls \<^verbatim>\<open>write_ec\<close> and throws for a nonzero
  code; \<^verbatim>\<open>read\<close> has a callback of its own, which stores either the data or the failure in
  the promise. Each adapter returns what its caller sees together with the service as
  the call leaves it.
\<close>

definition write_ec :: "AsyncAPI \<Rightarrow> string \<Rightarrow> errorcode outcome \<times> AsyncAPI" where
  "write_ec api data =
     (let promise = Not_ready;
          (thread, api) = init_write api data (\<lambda>ec. set_value ec)
      in (await thread promise, api))"

definition "write" :: "AsyncAPI \<Rightarrow> string \<Rightarrow> unit outcome \<times> AsyncAPI" where
  "write api data =
     (case write_ec api data of
        (Returns ec, api) \<Rightarrow> (if ec \<noteq> 0 then Throws (make_exception ''write'' ec) else Returns (), api)
      | (Throws e, api) \<Rightarrow> (Throws e, api)
      | (Never_resumes, api) \<Rightarrow> (Never_resumes, api)
      | (Terminates, api) \<Rightarrow> (Terminates, api))"

definition read_ec :: "AsyncAPI \<Rightarrow> (errorcode \<times> string) outcome \<times> AsyncAPI" where
  "read_ec api =
     (let promise = Not_ready;
          (thread, api) = init_read api (\<lambda>ec data. set_value (ec, data))
      in (await thread promise, api))"

definition read :: "AsyncAPI \<Rightarrow> string outcome \<times> AsyncAPI" where
  "read api =
     (let promise = Not_ready;
          (thread, api) = init_read api
             (\<lambda>ec data. if ec = 0 then set_value data
                         else set_exception (make_exception ''read'' ec))
      in (await thread promise, api))"

section \<open>Calls of a client and what they deliver\<close>

text \<open>
  The four adapters as one type of operation, and what each delivers to its caller.
\<close>

datatype operation = Write string | Write_ec string | Read | Read_ec

datatype result =
    Write_result "unit outcome"
  | Write_ec_result "errorcode outcome"
  | Read_result "string outcome"
  | Read_ec_result "(errorcode \<times> string) outcome"

fun perform :: "AsyncAPI \<Rightarrow> operation \<Rightarrow> result \<times> AsyncAPI" where
  "perform api (Write data) = (let (r, api) = write api data in (Write_result r, api))"
| "perform api (Write_ec data) = (let (r, api) = write_ec api data in (Write_ec_result r, api))"
| "perform api Read = (let (r, api) = read api in (Read_result r, api))"
| "perform api Read_ec = (let (r, api) = read_ec api in (Read_ec_result r, api))"

text \<open>
  A client, like \<^verbatim>\<open>main\<close>, calls \<^verbatim>\<open>inject_error\<close> and the adapters one after the other and
  catches what the value-returning adapters throw. \<open>run\<close> performs such a sequence of
  calls and records every operation with its result, the earliest first.
\<close>

datatype call = Inject_error errorcode | Operation operation

fun run :: "AsyncAPI \<Rightarrow> call list \<Rightarrow> (operation \<times> result) list \<times> AsyncAPI" where
  "run api [] = ([], api)"
| "run api (Inject_error ec # calls) = run (inject_error api ec) calls"
| "run api (Operation opn # calls) =
     (let (r, api) = perform api opn;
          (log, api) = run api calls
      in ((opn, r) # log, api))"

text \<open>
  An operation observes the code \<open>c\<close> when it delivers \<open>c\<close> to its caller: as the
  returned code for \<^verbatim>\<open>write_ec\<close> and \<^verbatim>\<open>read_ec\<close>; for \<^verbatim>\<open>write\<close> and \<^verbatim>\<open>read\<close> by returning
  normally for 0 and by throwing the failure made for the operation and \<open>c\<close> otherwise.
\<close>

fun observes :: "result \<Rightarrow> errorcode \<Rightarrow> bool" where
  "observes (Write_ec_result (Returns ec)) c = (ec = c)"
| "observes (Read_ec_result (Returns (ec, data))) c = (ec = c)"
| "observes (Write_result (Returns u)) c = (c = 0)"
| "observes (Write_result (Throws e)) c = (c \<noteq> 0 \<and> e = make_exception ''write'' c)"
| "observes (Read_result (Returns data)) c = (c = 0)"
| "observes (Read_result (Throws e)) c = (c \<noteq> 0 \<and> e = make_exception ''read'' c)"
| "observes r c = False"

text \<open>
  A successful write in the record of a run is a \<^verbatim>\<open>write\<close> that returned normally or a
  \<^verbatim>\<open>write_ec\<close> that returned 0. The payload of the last one, if there is one, is what the
  service is expected to hold; before any successful write it holds what it started with.
\<close>

fun successful_write :: "operation \<times> result \<Rightarrow> string option" where
  "successful_write (Write data, Write_result (Returns u)) = Some data"
| "successful_write (Write_ec data, Write_ec_result (Returns ec)) = (if ec = 0 then Some data else None)"
| "successful_write other = None"

fun last_successful_write :: "(operation \<times> result) list \<Rightarrow> string option" where
  "last_successful_write [] = None"
| "last_successful_write (e # log) =
     (case last_successful_write log of Some data \<Rightarrow> Some data | None \<Rightarrow> successful_write e)"

definition stored_payload :: "string \<Rightarrow> (operation \<times> result) list \<Rightarrow> string" where
  "stored_payload initial log = (case last_successful_write log of Some data \<Rightarrow> data | None \<Rightarrow> initial)"

text \<open>The calls of \<^verbatim>\<open>main\<close>, and its calls up to the first injected write error.\<close>

definition main_calls :: "call list" where
  "main_calls =
     [Operation (Write ''abcd''), Operation Read, Operation (Write_ec ''efgh''),
      Inject_error 1, Operation (Write_ec ''ijkl''),
      Inject_error 2, Operation (Write ''mnop''),
      Operation Read_ec,
      Inject_error 3, Operation Read_ec,
      Inject_error 4, Operation Read]"

definition calls_before_failed_write :: "call list" where
  "calls_before_failed_write =
     [Operation (Write ''abcd''), Operation Read, Operation (Write_ec ''efgh''), Inject_error 1]"

section \<open>Specification of the decimal representation\<close>

text \<open>
  A string is the decimal representation of an integer when it is a numeral (a non-empty
  string of digits without a leading zero, except \<open>0\<close> itself) whose positional value is
  the integer, or a minus sign followed by the numeral of the absolute value of a
  negative integer.
\<close>

definition is_digit :: "char \<Rightarrow> bool" where
  "is_digit c = (c \<in> set ''0123456789'')"

definition digit_value :: "char \<Rightarrow> nat" where
  "digit_value c = of_char c - of_char CHR ''0''"

definition digits_value :: "string \<Rightarrow> nat" where
  "digits_value ds = foldl (\<lambda>a c. 10 * a + digit_value c) 0 ds"

definition is_numeral :: "string \<Rightarrow> bool" where
  "is_numeral ds = (ds \<noteq> [] \<and> list_all is_digit ds \<and> (length ds = 1 \<or> hd ds \<noteq> CHR ''0''))"

definition is_decimal_of :: "string \<Rightarrow> int \<Rightarrow> bool" where
  "is_decimal_of s i =
     (case s of
        [] \<Rightarrow> False
      | c # cs \<Rightarrow>
          if c = CHR ''-'' then i < 0 \<and> is_numeral cs \<and> int (digits_value cs) = - i
          else 0 \<le> i \<and> is_numeral s \<and> int (digits_value s) = i)"

section \<open>The value-returning adapters, as the outcome-returning ones followed by a raise\<close>

text \<open>
  The description of the value-returning adapters in terms of the outcome-returning ones:
  take the outcome; if its code is nonzero raise the failure made for the operation's
  name and the code, otherwise return its payload.
\<close>

definition raise_if_nonzero ::
  "string \<Rightarrow> ('r \<Rightarrow> errorcode) \<Rightarrow> ('r \<Rightarrow> 'v) \<Rightarrow> 'r outcome \<Rightarrow> 'v outcome" where
  "raise_if_nonzero name code payload r =
     (case r of
        Returns x \<Rightarrow> (if code x \<noteq> 0 then Throws (make_exception name (code x)) else Returns (payload x))
      | Throws e \<Rightarrow> Throws e
      | Never_resumes \<Rightarrow> Never_resumes
      | Terminates \<Rightarrow> Terminates)"

definition write_via_ec :: "AsyncAPI \<Rightarrow> string \<Rightarrow> unit outcome \<times> AsyncAPI" where
  "write_via_ec api data =
     (let (r, api) = write_ec api data in (raise_if_nonzero ''write'' id (\<lambda>ec. ()) r, api))"

definition read_via_ec :: "AsyncAPI \<Rightarrow> string outcome \<times> AsyncAPI" where
  "read_via_ec api =
     (let (r, api) = read_ec api in (raise_if_nonzero ''read'' fst snd r, api))"

section \<open>What the adapters compute\<close>

text \<open>
  The result and the final state of each adapter in closed form, then three facts on
  every operation: it leaves no pending code, it observes the code that was pending, and
  it changes the stored data exactly when it is a successful write. The last one extends
  to sequences of calls: the service holds the payload of the last successful write.
\<close>

lemma write_ec_eq:
  "write_ec api data =
     (Returns (injected_' api),
      if injected_' api = 0 then api\<lparr>injected_' := 0, data_' := data\<rparr> else api\<lparr>injected_' := 0\<rparr>)"
  by (simp add: write_ec_def init_write_def await_def set_value_def future_get_def)

lemma write_eq:
  "write api data =
     (if injected_' api = 0 then (Returns (), api\<lparr>injected_' := 0, data_' := data\<rparr>)
      else (Throws (make_exception ''write'' (injected_' api)), api\<lparr>injected_' := 0\<rparr>))"
  by (simp add: write_def write_ec_eq)

lemma read_ec_eq:
  "read_ec api = (Returns (injected_' api, data_' api), api\<lparr>injected_' := 0\<rparr>)"
  by (simp add: read_ec_def init_read_def await_def set_value_def future_get_def)

lemma read_eq:
  "read api =
     (if injected_' api = 0 then Returns (data_' api) else Throws (make_exception ''read'' (injected_' api)),
      api\<lparr>injected_' := 0\<rparr>)"
  by (simp add: read_def init_read_def await_def set_value_def set_exception_def future_get_def)

lemma perform_injected: "perform api opn = (r, api') \<Longrightarrow> injected_' api' = 0"
  by (cases opn) (auto simp: write_eq write_ec_eq read_eq read_ec_eq split: if_splits)

lemma perform_observes: "perform api opn = (r, api') \<Longrightarrow> observes r (injected_' api)"
  by (cases opn) (auto simp: write_eq write_ec_eq read_eq read_ec_eq split: if_splits)

lemma perform_data:
  "perform api opn = (r, api') \<Longrightarrow>
   data_' api' = (case successful_write (opn, r) of Some data \<Rightarrow> data | None \<Rightarrow> data_' api)"
  by (cases opn) (auto simp: write_eq write_ec_eq read_eq read_ec_eq split: if_splits)

lemma run_data:
  "run api calls = (log, api') \<Longrightarrow> data_' api' = stored_payload (data_' api) log"
proof (induction calls arbitrary: api log api')
  case Nil
  then show ?case by (simp add: stored_payload_def)
next
  case (Cons c calls)
  show ?case
  proof (cases c)
    case (Inject_error ec)
    with Cons.prems have "run (inject_error api ec) calls = (log, api')" by simp
    from Cons.IH [OF this] show ?thesis by (simp add: inject_error_def)
  next
    case (Operation opn)
    obtain r api1 where p: "perform api opn = (r, api1)" by (cases "perform api opn")
    obtain log1 api2 where r: "run api1 calls = (log1, api2)" by (cases "run api1 calls")
    from Cons.prems Operation p r have eq: "log = (opn, r) # log1" "api' = api2" by simp_all
    from Cons.IH [OF r] perform_data [OF p] eq show ?thesis
      by (simp add: stored_payload_def split: option.splits)
  qed
qed

section \<open>Decimal digits\<close>

text \<open>
  The digits written for an integer are its decimal representation, so different codes
  give different messages and a thrown failure determines the code that was observed.
\<close>

lemma digit_char_eval:
  "digit_char 0 = CHR ''0''" "digit_char 1 = CHR ''1''" "digit_char (Suc 0) = CHR ''1''"
  "digit_char 2 = CHR ''2''" "digit_char 3 = CHR ''3''" "digit_char 4 = CHR ''4''"
  "digit_char 5 = CHR ''5''" "digit_char 6 = CHR ''6''" "digit_char 7 = CHR ''7''"
  "digit_char 8 = CHR ''8''" "digit_char 9 = CHR ''9''"
  by code_simp+

lemma digit_cases:
  "d < 10 \<Longrightarrow> d = 0 \<or> d = 1 \<or> d = 2 \<or> d = 3 \<or> d = 4 \<or> d = 5 \<or> d = 6 \<or> d = 7 \<or> d = 8 \<or> d = (9::nat)"
  by arith

lemma digit_char_props:
  assumes "d < 10"
  shows "is_digit (digit_char d)" and "digit_value (digit_char d) = d"
    and "digit_char d \<noteq> CHR ''-''" and "(digit_char d = CHR ''0'') = (d = 0)"
  using digit_cases [OF assms]
  by (auto simp: digit_char_eval is_digit_def digit_value_def)

lemma decimal_digits_nonempty: "decimal_digits n \<noteq> []"
  by (subst decimal_digits.simps) simp

lemma decimal_digits_all_digits: "list_all is_digit (decimal_digits n)"
proof (induction n rule: decimal_digits.induct)
  case (1 n)
  show ?case
  proof (cases "n < 10")
    case True
    then show ?thesis by (subst decimal_digits.simps) (simp add: digit_char_props)
  next
    case False
    with 1 show ?thesis by (subst decimal_digits.simps) (simp add: digit_char_props)
  qed
qed

lemma digits_value_snoc: "digits_value (ds @ [c]) = 10 * digits_value ds + digit_value c"
  by (simp add: digits_value_def)

lemma digits_value_decimal_digits: "digits_value (decimal_digits n) = n"
proof (induction n rule: decimal_digits.induct)
  case (1 n)
  show ?case
  proof (cases "n < 10")
    case True
    then show ?thesis
      by (subst decimal_digits.simps) (simp add: digits_value_def digit_char_props)
  next
    case False
    with 1 show ?thesis
      by (subst decimal_digits.simps) (simp add: digits_value_snoc digit_char_props)
  qed
qed

lemma hd_decimal_digits_zero: "(hd (decimal_digits n) = CHR ''0'') = (n = 0)"
proof (induction n rule: decimal_digits.induct)
  case (1 n)
  show ?case
  proof (cases "n < 10")
    case True
    then show ?thesis by (subst decimal_digits.simps) (simp add: digit_char_props)
  next
    case False
    then have "n div 10 \<noteq> 0" by simp
    with False 1 show ?thesis
      by (subst decimal_digits.simps) (simp add: decimal_digits_nonempty)
  qed
qed

lemma decimal_digits_zero: "decimal_digits 0 = ''0''"
  by (subst decimal_digits.simps) (simp add: digit_char_eval)

lemma is_numeral_decimal_digits: "is_numeral (decimal_digits n)"
  unfolding is_numeral_def
  using decimal_digits_nonempty [of n] decimal_digits_all_digits [of n]
    hd_decimal_digits_zero [of n] decimal_digits_zero
  by (cases "n = 0") auto

lemma hd_decimal_digits_not_minus: "hd (decimal_digits n) \<noteq> CHR ''-''"
proof -
  from decimal_digits_nonempty [of n] decimal_digits_all_digits [of n]
  have "is_digit (hd (decimal_digits n))" by (cases "decimal_digits n") simp_all
  then show ?thesis by (auto simp: is_digit_def)
qed

lemma is_decimal_of_decimal: "is_decimal_of (decimal i) i"
proof (cases "i < 0")
  case True
  then show ?thesis
    by (simp add: is_decimal_of_def decimal_def is_numeral_decimal_digits digits_value_decimal_digits)
next
  case False
  obtain c cs where cs: "decimal_digits (nat i) = c # cs"
    using decimal_digits_nonempty [of "nat i"] by (cases "decimal_digits (nat i)") auto
  with hd_decimal_digits_not_minus [of "nat i"] have "c \<noteq> CHR ''-''" by simp
  with False cs is_numeral_decimal_digits [of "nat i"] digits_value_decimal_digits [of "nat i"]
  show ?thesis by (simp add: is_decimal_of_def decimal_def)
qed

lemma is_decimal_of_unique: "is_decimal_of s i \<Longrightarrow> is_decimal_of s j \<Longrightarrow> i = j"
  by (auto simp: is_decimal_of_def split: list.splits if_splits)

lemma decimal_inj: "decimal i = decimal j \<Longrightarrow> i = j"
  using is_decimal_of_decimal [of i] is_decimal_of_decimal [of j] is_decimal_of_unique by metis

lemma make_exception_msg:
  "msg (make_exception desc ec) = ''Error in AsyncAPI::'' @ desc @ ''(): '' @ decimal (sint ec)"
  by (simp add: make_exception_def put_string_def put_int_def)

lemma decimal_digits_no_nul: "CHR 0x00 \<notin> set (decimal_digits n)"
proof
  assume "CHR 0x00 \<in> set (decimal_digits n)"
  with decimal_digits_all_digits [of n] have "is_digit (CHR 0x00)"
    by (simp add: list_all_iff)
  then show False by (simp add: is_digit_def)
qed

lemma decimal_no_nul: "CHR 0x00 \<notin> set (decimal i)"
  by (simp add: decimal_def decimal_digits_no_nul)

lemma what_no_nul: "CHR 0x00 \<notin> set (msg e) \<Longrightarrow> what e = msg e"
  unfolding what_def by (rule takeWhile_eq_all_conv [THEN iffD2]) auto

lemma make_exception_inj: "make_exception desc c = make_exception desc c' \<Longrightarrow> c = c'"
proof -
  assume "make_exception desc c = make_exception desc c'"
  then have "msg (make_exception desc c) = msg (make_exception desc c')" by simp
  then have "decimal (sint c) = decimal (sint c')" by (simp add: make_exception_msg)
  then have "sint c = sint c'" by (rule decimal_inj)
  then show "c = c'" by (rule signed_word_eqI)
qed

lemma observes_unique: "observes r c \<Longrightarrow> observes r c' \<Longrightarrow> c = c'"
  by (induction r c rule: observes.induct) (auto dest: make_exception_inj)

section \<open>The driving logic\<close>

lemmas eval_simps =
  AsyncAPI_ctor_def inject_error_def init_write_def init_read_def set_value_def set_exception_def
  future_get_def await_def write_ec_def write_def read_ec_def read_def make_exception_def
  put_string_def put_int_def decimal_def decimal_digits.simps digit_char_eval stored_payload_def

text \<open>Every assertion of \<^verbatim>\<open>main\<close> holds: the results of its calls are the asserted ones.\<close>

lemma main_assertions:
  "run AsyncAPI_ctor main_calls =
     ([(Write ''abcd'', Write_result (Returns ())),
       (Read, Read_result (Returns ''abcd'')),
       (Write_ec ''efgh'', Write_ec_result (Returns 0)),
       (Write_ec ''ijkl'', Write_ec_result (Returns 1)),
       (Write ''mnop'', Write_result (Throws (Runtime_error ''Error in AsyncAPI::write(): 2''))),
       (Read_ec, Read_ec_result (Returns (0, ''efgh''))),
       (Read_ec, Read_ec_result (Returns (3, ''efgh''))),
       (Read, Read_result (Throws (Runtime_error ''Error in AsyncAPI::read(): 4'')))],
      \<lparr>data_' = ''efgh'', injected_' = 0\<rparr>)"
  by (simp add: main_calls_def eval_simps)

lemma run_before_failed_write:
  "run AsyncAPI_ctor calls_before_failed_write =
     ([(Write ''abcd'', Write_result (Returns ())),
       (Read, Read_result (Returns ''abcd'')),
       (Write_ec ''efgh'', Write_ec_result (Returns 0))],
      \<lparr>data_' = ''efgh'', injected_' = 1\<rparr>)"
  by (simp add: calls_before_failed_write_def eval_simps)

section \<open>Error injection\<close>

text \<open>
  C10: \<^verbatim>\<open>inject_error\<close> overwrites whatever code was pending. After \<open>inject_error api c\<close>
  the pending code is \<open>c\<close> whatever the state was and the stored data is untouched; two
  injections in a row leave the state that the second one alone gives, so the next
  operation, whichever it is, observes the second code: injections do not queue.
\<close>

theorem inject_error_overwrites:
  "injected_' (inject_error api c) = c
   \<and> data_' (inject_error api c) = data_' api
   \<and> inject_error (inject_error api c1) c2 = inject_error api c2
   \<and> observes (fst (perform (inject_error (inject_error api c1) c2) opn)) c2"
proof -
  obtain r api' where p: "perform (inject_error (inject_error api c1) c2) opn = (r, api')"
    by (cases "perform (inject_error (inject_error api c1) c2) opn")
  from perform_observes [OF p] p show ?thesis by (simp add: inject_error_def)
qed

theorem inject_error_overwrites_witness:
  "injected_' (inject_error AsyncAPI_ctor 3) = 3
   \<and> inject_error (inject_error AsyncAPI_ctor 7) 3 = inject_error AsyncAPI_ctor 3
   \<and> perform (inject_error (inject_error AsyncAPI_ctor 7) 3) Read_ec
       = (Read_ec_result (Returns (3, [])), AsyncAPI_ctor)
   \<and> observes (Read_ec_result (Returns (3, []))) 3"
  using inject_error_overwrites [of AsyncAPI_ctor 3 7 3 Read_ec]
  by (simp add: eval_simps)

text \<open>
  C5: injection is one-shot. For every state \<open>api\<close>, every code \<open>c\<close> and any two
  operations, the operation performed right after \<open>inject_error api c\<close> observes \<open>c\<close> and
  leaves the pending code 0, and the operation performed after it, with no injection in
  between, observes 0 and leaves the pending code 0 again.
\<close>

theorem one_shot_injection:
  "perform (inject_error api c) op1 = (r1, api1) \<Longrightarrow> perform api1 op2 = (r2, api2) \<Longrightarrow>
   observes r1 c \<and> injected_' api1 = 0 \<and> observes r2 0 \<and> injected_' api2 = 0"
  using perform_observes [of "inject_error api c" op1 r1 api1] perform_observes [of api1 op2 r2 api2]
    perform_injected [of "inject_error api c" op1 r1 api1] perform_injected [of api1 op2 r2 api2]
  by (simp add: inject_error_def)

theorem one_shot_injection_witness:
  "perform (inject_error AsyncAPI_ctor 3) Read_ec
     = (Read_ec_result (Returns (3, [])), AsyncAPI_ctor)
   \<and> perform AsyncAPI_ctor Read = (Read_result (Returns []), AsyncAPI_ctor)
   \<and> observes (Read_ec_result (Returns (3, []))) 3 \<and> injected_' AsyncAPI_ctor = 0
   \<and> observes (Read_result (Returns [])) 0"
  using one_shot_injection [of AsyncAPI_ctor 3 Read_ec "Read_ec_result (Returns (3, []))"
      AsyncAPI_ctor Read "Read_result (Returns [])" AsyncAPI_ctor]
  by (simp add: read_ec_eq read_eq AsyncAPI_ctor_def inject_error_def)

section \<open>The failure construction helper\<close>

text \<open>
  C6: \<^verbatim>\<open>make_exception\<close> is a function of the operation name and the code alone (it neither
  takes nor returns the service). The claim, for every operation name, that the message
  of the failure is \<open>Error in AsyncAPI::\<close>, the name, \<open>(): \<close> and the code in decimal fails
  for a name with a NUL byte in it: for the name \<open>a\<close>, NUL, \<open>b\<close> and the code 4 the message
  read through \<^verbatim>\<open>what()\<close> is \<open>Error in AsyncAPI::a\<close>, which is not the 27 characters of the
  format.
\<close>

theorem make_exception_message_counterexample:
  "what (make_exception [CHR ''a'', CHR 0x00, CHR ''b''] 4) = ''Error in AsyncAPI::a''
   \<and> what (make_exception [CHR ''a'', CHR 0x00, CHR ''b''] 4)
       \<noteq> ''Error in AsyncAPI::'' @ [CHR ''a'', CHR 0x00, CHR ''b''] @ ''(): '' @ ''4''"
  by (simp add: what_def make_exception_def put_string_def put_int_def)

text \<open>
  C6, amended: for every operation name \<open>desc\<close> without a NUL byte and every code \<open>ec\<close>
  the message of the failure is \<open>Error in AsyncAPI::\<close>, the name, \<open>(): \<close> and the digits
  written for the code, and these digits are the decimal representation of the code's
  signed value.
\<close>

theorem make_exception_message:
  assumes "CHR 0x00 \<notin> set desc"
  shows "what (make_exception desc ec) = ''Error in AsyncAPI::'' @ desc @ ''(): '' @ decimal (sint ec)
    \<and> is_decimal_of (decimal (sint ec)) (sint ec)"
proof -
  from assms have "CHR 0x00 \<notin> set (msg (make_exception desc ec))"
    by (simp add: make_exception_msg decimal_no_nul)
  then have "what (make_exception desc ec) = msg (make_exception desc ec)"
    by (rule what_no_nul)
  then show ?thesis by (simp add: make_exception_msg is_decimal_of_decimal)
qed

theorem make_exception_message_witness:
  "CHR 0x00 \<notin> set ''write''
   \<and> what (make_exception ''write'' (- 2)) = ''Error in AsyncAPI::write(): -2''
   \<and> is_decimal_of ''-2'' (- 2)"
  using make_exception_message [of "''write''" "- 2"]
  by (simp add: decimal_def decimal_digits.simps digit_char_eval)

section \<open>The adapters under an injected code\<close>

text \<open>
  C1: for every state, every data argument and every code \<open>c\<close> injected right before the
  call: if \<open>c\<close> is not 0, \<^verbatim>\<open>write\<close> throws the failure \<open>make_exception ''write'' c\<close> and
  \<^verbatim>\<open>read\<close> throws \<open>make_exception ''read'' c\<close>; if \<open>c\<close> is 0, \<^verbatim>\<open>write\<close> returns normally
  and \<^verbatim>\<open>read\<close> returns the stored data. The instance below has the message
  \<open>Error in AsyncAPI::read(): 4\<close> for \<^verbatim>\<open>read\<close> and the code 4.
\<close>

theorem value_adapters_raise:
  "(c \<noteq> 0 \<longrightarrow>
      fst (write (inject_error api c) data) = Throws (make_exception ''write'' c)
      \<and> fst (read (inject_error api c)) = Throws (make_exception ''read'' c))
   \<and> (c = 0 \<longrightarrow>
      fst (write (inject_error api c) data) = Returns ()
      \<and> fst (read (inject_error api c)) = Returns (data_' api))"
  by (simp add: write_eq read_eq inject_error_def)

theorem value_adapters_raise_witness:
  "(4::errorcode) \<noteq> 0
   \<and> fst (write (inject_error AsyncAPI_ctor 4) ''mnop'')
       = Throws (Runtime_error ''Error in AsyncAPI::write(): 4'')
   \<and> fst (read (inject_error AsyncAPI_ctor 4))
       = Throws (Runtime_error ''Error in AsyncAPI::read(): 4'')
   \<and> fst (write (inject_error AsyncAPI_ctor 0) ''mnop'') = Returns ()
   \<and> fst (read (inject_error AsyncAPI_ctor 0)) = Returns []"
  using value_adapters_raise [of 4 AsyncAPI_ctor "''mnop''"]
    value_adapters_raise [of 0 AsyncAPI_ctor "''mnop''"]
  by (simp add: make_exception_def put_string_def put_int_def decimal_def decimal_digits.simps
      digit_char_eval AsyncAPI_ctor_def)

text \<open>
  C2: for every state, every data argument and every nonzero code \<open>c\<close> injected right
  before the call, \<^verbatim>\<open>write_ec\<close> returns \<open>c\<close>: it neither throws nor fails to return.
\<close>

theorem write_ec_returns_code:
  "c \<noteq> 0 \<Longrightarrow> fst (write_ec (inject_error api c) data) = Returns c"
  by (simp add: write_ec_eq inject_error_def)

theorem write_ec_returns_code_witness:
  "(1::errorcode) \<noteq> 0 \<and> fst (write_ec (inject_error AsyncAPI_ctor 1) ''ijkl'') = Returns 1"
  using write_ec_returns_code [of 1 AsyncAPI_ctor "''ijkl''"] by simp

section \<open>The stored payload\<close>

text \<open>
  C3: for every payload \<open>p\<close> and every state with no pending code, a write of \<open>p\<close> (by
  \<^verbatim>\<open>write\<close> or by \<^verbatim>\<open>write_ec\<close>) succeeds and the \<^verbatim>\<open>read\<close> that follows it returns exactly
  \<open>p\<close>.
\<close>

theorem write_read_roundtrip:
  "injected_' api = 0 \<Longrightarrow>
   fst (write api p) = Returns () \<and> fst (read (snd (write api p))) = Returns p
   \<and> fst (write_ec api p) = Returns 0 \<and> fst (read (snd (write_ec api p))) = Returns p"
  by (simp add: write_eq write_ec_eq read_eq)

theorem write_read_roundtrip_witness:
  "injected_' AsyncAPI_ctor = 0
   \<and> fst (write AsyncAPI_ctor ''abcd'') = Returns ()
   \<and> fst (read (snd (write AsyncAPI_ctor ''abcd''))) = Returns ''abcd''
   \<and> fst (write_ec AsyncAPI_ctor ''abcd'') = Returns 0
   \<and> fst (read (snd (write_ec AsyncAPI_ctor ''abcd''))) = Returns ''abcd''"
  using write_read_roundtrip [of AsyncAPI_ctor "''abcd''"] by (simp add: AsyncAPI_ctor_def)

text \<open>
  C4: in the state reached by any sequence of calls from any state, when the pending
  code is 0, \<^verbatim>\<open>write_ec\<close> returns 0 and \<^verbatim>\<open>read_ec\<close> returns the code 0 together with
  the payload of the last successful write of that sequence (and what the service held
  at the start when the sequence has no successful write).
\<close>

theorem success_outcomes:
  "run api0 calls = (log, api) \<Longrightarrow> injected_' api = 0 \<Longrightarrow>
   fst (write_ec api data) = Returns 0
   \<and> fst (read_ec api) = Returns (0, stored_payload (data_' api0) log)"
  using run_data [of api0 calls log api] by (simp add: write_ec_eq read_ec_eq)

theorem success_outcomes_witness:
  "injected_' (snd (run AsyncAPI_ctor main_calls)) = 0
   \<and> last_successful_write (fst (run AsyncAPI_ctor main_calls)) = Some ''efgh''
   \<and> fst (write_ec (snd (run AsyncAPI_ctor main_calls)) ''qrst'') = Returns 0
   \<and> fst (read_ec (snd (run AsyncAPI_ctor main_calls))) = Returns (0, ''efgh'')"
proof -
  let ?log = "fst (run AsyncAPI_ctor main_calls)"
  let ?api = "snd (run AsyncAPI_ctor main_calls)"
  have r: "run AsyncAPI_ctor main_calls = (?log, ?api)" by simp
  have h: "injected_' ?api = 0" by (simp add: main_assertions)
  from success_outcomes [OF r h, of "''qrst''"] h show ?thesis
    by (simp add: main_assertions stored_payload_def)
qed

text \<open>
  C7: in the state reached by any sequence of calls from any state, a write performed
  while a nonzero code is pending (by \<^verbatim>\<open>write\<close> or by \<^verbatim>\<open>write_ec\<close>, with any data) leaves
  the stored payload as it was, and the \<^verbatim>\<open>read_ec\<close> that follows it succeeds and returns
  the payload of the last successful write of the sequence.
\<close>

theorem failed_write_keeps_payload:
  "run api0 calls = (log, api) \<Longrightarrow> injected_' api \<noteq> 0 \<Longrightarrow>
   data_' (snd (write api data)) = data_' api
   \<and> data_' (snd (write_ec api data)) = data_' api
   \<and> fst (read_ec (snd (write api data))) = Returns (0, stored_payload (data_' api0) log)
   \<and> fst (read_ec (snd (write_ec api data))) = Returns (0, stored_payload (data_' api0) log)"
  using run_data [of api0 calls log api] by (simp add: write_eq write_ec_eq read_ec_eq)

theorem failed_write_keeps_payload_witness:
  "injected_' (snd (run AsyncAPI_ctor calls_before_failed_write)) = 1
   \<and> last_successful_write (fst (run AsyncAPI_ctor calls_before_failed_write)) = Some ''efgh''
   \<and> fst (write_ec (snd (run AsyncAPI_ctor calls_before_failed_write)) ''ijkl'') = Returns 1
   \<and> fst (read_ec (snd (write (snd (run AsyncAPI_ctor calls_before_failed_write)) ''ijkl'')))
       = Returns (0, ''efgh'')
   \<and> fst (read_ec (snd (write_ec (snd (run AsyncAPI_ctor calls_before_failed_write)) ''ijkl'')))
       = Returns (0, ''efgh'')"
proof -
  let ?log = "fst (run AsyncAPI_ctor calls_before_failed_write)"
  let ?api = "snd (run AsyncAPI_ctor calls_before_failed_write)"
  have r: "run AsyncAPI_ctor calls_before_failed_write = (?log, ?api)" by simp
  have h: "injected_' ?api \<noteq> 0" by (simp add: run_before_failed_write)
  from failed_write_keeps_payload [OF r h, of "''ijkl''"] show ?thesis
    by (simp add: run_before_failed_write stored_payload_def write_ec_eq)
qed

text \<open>
  C8: in the state reached by any sequence of calls from any state, when a nonzero code
  is pending, \<^verbatim>\<open>read_ec\<close> returns that code together with the stored payload, which is
  the payload of the last successful write of the sequence.
\<close>

theorem read_ec_payload_on_error:
  "run api0 calls = (log, api) \<Longrightarrow> injected_' api \<noteq> 0 \<Longrightarrow>
   fst (read_ec api) = Returns (injected_' api, data_' api)
   \<and> data_' api = stored_payload (data_' api0) log"
  using run_data [of api0 calls log api] by (simp add: read_ec_eq)

theorem read_ec_payload_on_error_witness:
  "fst (read_ec (snd (run AsyncAPI_ctor calls_before_failed_write))) = Returns (1, ''efgh'')
   \<and> stored_payload (data_' AsyncAPI_ctor) (fst (run AsyncAPI_ctor calls_before_failed_write))
       = ''efgh''"
proof -
  let ?log = "fst (run AsyncAPI_ctor calls_before_failed_write)"
  let ?api = "snd (run AsyncAPI_ctor calls_before_failed_write)"
  have r: "run AsyncAPI_ctor calls_before_failed_write = (?log, ?api)" by simp
  have h: "injected_' ?api \<noteq> 0" by (simp add: run_before_failed_write)
  from read_ec_payload_on_error [OF r h] show ?thesis
    by (simp add: run_before_failed_write)
qed

section \<open>Refinement\<close>

text \<open>
  C9: for every state and data argument, \<^verbatim>\<open>write\<close> is \<^verbatim>\<open>write_ec\<close> followed by raising
  \<open>make_exception ''write'' ec\<close> exactly when the returned code \<open>ec\<close> is nonzero, and
  \<^verbatim>\<open>read\<close> is \<^verbatim>\<open>read_ec\<close> followed by raising \<open>make_exception ''read'' ec\<close> exactly when
  the code is nonzero and returning the payload otherwise; results and final states of
  the service agree in both pairs.
\<close>

theorem value_adapters_refine:
  "write api data = write_via_ec api data \<and> read api = read_via_ec api"
  by (simp add: write_via_ec_def read_via_ec_def raise_if_nonzero_def write_eq write_ec_eq
      read_eq read_ec_eq)

theorem value_adapters_refine_witness:
  "write (inject_error AsyncAPI_ctor 2) ''mnop''
     = (Throws (Runtime_error ''Error in AsyncAPI::write(): 2''), AsyncAPI_ctor)
   \<and> write_via_ec (inject_error AsyncAPI_ctor 2) ''mnop''
     = (Throws (Runtime_error ''Error in AsyncAPI::write(): 2''), AsyncAPI_ctor)
   \<and> read (inject_error AsyncAPI_ctor 4)
     = (Throws (Runtime_error ''Error in AsyncAPI::read(): 4''), AsyncAPI_ctor)
   \<and> read_via_ec (inject_error AsyncAPI_ctor 4)
     = (Throws (Runtime_error ''Error in AsyncAPI::read(): 4''), AsyncAPI_ctor)"
  using value_adapters_refine [of "inject_error AsyncAPI_ctor 2" "''mnop''"]
    value_adapters_refine [of "inject_error AsyncAPI_ctor 4" "''mnop''"]
  by (simp add: eval_simps)

end
